theory Spec2Isabelle
  imports Complex_Main "HOL-Library.Multiset"
begin

section \<open>Face detection game: the weighted sector wheel of \<^verbatim>\<open>script.js\<close>\<close>

text \<open>
  The development embeds the computational core of \<^verbatim>\<open>src/script.js\<close>: the prize table,
  the heading estimator \<^verbatim>\<open>calculateFaceHeading\<close>, the resolver
  \<^verbatim>\<open>detectDrawnRaySectorPrize\<close>, the wheel generator \<^verbatim>\<open>initDynamicBackground\<close>, the
  layout loop of \<^verbatim>\<open>drawBackground\<close> and the per-frame callback \<^verbatim>\<open>onResults\<close>.

  Conventions of the embedding.
  \<^item> A JavaScript number is a \<^typ>\<open>real\<close>: sums, products and quotients are exact, so
    rounding of IEEE doubles, \<^verbatim>\<open>NaN\<close>, the infinities and the sign of zero are outside the
    model. A read past the end of \<^verbatim>\<open>weights\<close>, where the source goes on with \<^verbatim>\<open>NaN\<close>, is
    a branch of its own in the two loops that read the array. A quotient by
    \<^verbatim>\<open>totalWeight\<close> is the source's when \<^verbatim>\<open>totalWeight\<close> is not 0; for 0 the source
    computes with an infinity or \<^verbatim>\<open>NaN\<close>, which the model does not follow. The generator
    stores a positive sum.
  \<^item> An array element that may be \<^verbatim>\<open>undefined\<close> is an \<^typ>\<open>'a option\<close>, with
    \<^term>\<open>None\<close> for \<^verbatim>\<open>undefined\<close>.
  \<^item> \<^verbatim>\<open>Math.random\<close> is a sequence \<open>rnd :: nat \<Rightarrow> real\<close> of the values it returns
    together with a counter of the calls made so far; its contract is \<open>0 \<le> rnd k < 1\<close>.
  \<^item> The global variables \<^verbatim>\<open>sectorData\<close> and \<^verbatim>\<open>moneyDisplay.textContent\<close> and the size of
    the background canvas form the record \<open>game_state\<close>, passed explicitly.
  \<^item> A thrown exception is the left summand of a sum type, paired with the state at the
    moment of the throw.
  \<^item> Drawing calls on the two canvas contexts are not part of the model.
\<close>

subsection \<open>The prize table\<close>

text \<open>
  \<^verbatim>\<open>prizeValues\<close> is an object literal with six own properties. The model is the map of
  these own properties; keys inherited from \<^verbatim>\<open>Object.prototype\<close> are not modelled (no
  palette colour is such a key).
\<close>

definition prizeValues :: "string \<rightharpoonup> int" where
  "prizeValues = map_of
     [(''#FF78A3'', 100),
      (''#47D495'', 50),
      (''#FFCC8D'', 20),
      (''#87C9EA'', 10),
      (''#C088D2'', 5),
      (''#DDDDDD'', 1)]"

text \<open>
  \<^verbatim>\<open>prizeValues[color] || 0\<close>: a missing key reads \<^verbatim>\<open>undefined\<close>, and both
  \<^verbatim>\<open>undefined\<close> and the number 0 are falsy, so both give 0. The colour itself is
  \<^verbatim>\<open>undefined\<close> when \<^verbatim>\<open>assignments[i]\<close> is read out of range; the key is then the string
  \<^verbatim>\<open>"undefined"\<close>, which the table does not have.
\<close>

definition prizeOf :: "string option \<Rightarrow> int" where
  "prizeOf color =
     (case color of
        None \<Rightarrow> 0
      | Some c \<Rightarrow> (case prizeValues c of None \<Rightarrow> 0 | Some v \<Rightarrow> (if v = 0 then 0 else v)))"

subsection \<open>The wheel state\<close>

text \<open>The object stored in \<^verbatim>\<open>sectorData\<close>: \<^verbatim>\<open>{ assignments, weights, totalWeight, totalSectors }\<close>.\<close>

record sector_data =
  assignments :: "string option list"
  weights :: "real list"
  totalWeight :: real
  totalSectors :: nat

text \<open>Reading \<^verbatim>\<open>xs[i]\<close>: \<^verbatim>\<open>undefined\<close> outside the array.\<close>

definition js_index :: "'a list \<Rightarrow> int \<Rightarrow> 'a option" where
  "js_index xs i = (if 0 \<le> i \<and> nat i < length xs then Some (xs ! nat i) else None)"

definition js_index_opt :: "'a option list \<Rightarrow> nat \<Rightarrow> 'a option" where
  "js_index_opt xs i = (if i < length xs then xs ! i else None)"

subsection \<open>Angle of the drawn ray\<close>

text \<open>
  \<^verbatim>\<open>Math.atan2(y, x)\<close> on the reals. At \<open>x = 0\<close> and \<open>y = 0\<close> the source's result depends on
  the signs of the two zeros (0, \<open>\<pi>\<close>, or their negatives); the model has one zero and
  takes 0 there.
\<close>

definition atan2 :: "real \<Rightarrow> real \<Rightarrow> real" where
  "atan2 y x =
     (if 0 < x then arctan (y / x)
      else if x < 0 \<and> 0 \<le> y then arctan (y / x) + pi
      else if x < 0 \<and> y < 0 then arctan (y / x) - pi
      else if 0 < y then pi / 2
      else if y < 0 then - (pi / 2)
      else 0)"

text \<open>\<^verbatim>\<open>while (rayAngle < -Math.PI / 2) rayAngle += 2 * Math.PI;\<close>\<close>

function normalizeUp :: "real \<Rightarrow> real" where
  "normalizeUp rayAngle =
     (if rayAngle < - pi / 2 then normalizeUp (rayAngle + 2 * pi) else rayAngle)"
  by pat_completeness auto
termination
proof (relation "measure (\<lambda>a. nat \<lceil>(- pi / 2 - a) / (2 * pi)\<rceil>)")
  show "wf (measure (\<lambda>a. nat \<lceil>(- pi / 2 - a) / (2 * pi)\<rceil>))"
    by simp
next
  fix rayAngle :: real
  assume lt: "rayAngle < - pi / 2"
  have eq: "(- pi / 2 - (rayAngle + 2 * pi)) / (2 * pi) = (- pi / 2 - rayAngle) / (2 * pi) - 1"
    by (simp add: field_simps)
  have pos: "0 < (- pi / 2 - rayAngle) / (2 * pi)"
    using lt by simp
  then have "0 < \<lceil>(- pi / 2 - rayAngle) / (2 * pi)\<rceil>"
    by simp
  then have "nat (\<lceil>(- pi / 2 - rayAngle) / (2 * pi)\<rceil> - 1) < nat \<lceil>(- pi / 2 - rayAngle) / (2 * pi)\<rceil>"
    by linarith
  then show "(rayAngle + 2 * pi, rayAngle) \<in> measure (\<lambda>a. nat \<lceil>(- pi / 2 - a) / (2 * pi)\<rceil>)"
    by (simp only: in_measure eq ceiling_diff_one)
qed

text \<open>\<^verbatim>\<open>while (rayAngle >= 3 * Math.PI / 2) rayAngle -= 2 * Math.PI;\<close>\<close>

function normalizeDown :: "real \<Rightarrow> real" where
  "normalizeDown rayAngle =
     (if rayAngle \<ge> 3 * pi / 2 then normalizeDown (rayAngle - 2 * pi) else rayAngle)"
  by pat_completeness auto
termination
proof (relation "measure (\<lambda>a. nat \<lfloor>(a - 3 * pi / 2) / (2 * pi)\<rfloor> + (if a \<ge> 3 * pi / 2 then 1 else 0))")
  show "wf (measure (\<lambda>a. nat \<lfloor>(a - 3 * pi / 2) / (2 * pi)\<rfloor> + (if a \<ge> 3 * pi / 2 then 1 else 0)))"
    by simp
next
  fix rayAngle :: real
  assume ge: "3 * pi / 2 \<le> rayAngle"
  let ?q = "(rayAngle - 3 * pi / 2) / (2 * pi)"
  have eq: "(rayAngle - 2 * pi - 3 * pi / 2) / (2 * pi) = ?q - 1"
    by (simp add: field_simps)
  have nonneg: "0 \<le> ?q"
    using ge by simp
  then have fl: "0 \<le> \<lfloor>?q\<rfloor>"
    by simp
  show "(rayAngle - 2 * pi, rayAngle)
      \<in> measure (\<lambda>a. nat \<lfloor>(a - 3 * pi / 2) / (2 * pi)\<rfloor> + (if a \<ge> 3 * pi / 2 then 1 else 0))"
  proof (cases "3 * pi / 2 \<le> rayAngle - 2 * pi")
    case True
    then have "1 \<le> ?q"
      by (simp add: field_simps)
    then have "1 \<le> \<lfloor>?q\<rfloor>"
      by simp
    then have "nat (\<lfloor>?q\<rfloor> - 1) + 1 < nat \<lfloor>?q\<rfloor> + 1"
      by linarith
    with True ge show ?thesis
      by (simp only: in_measure eq floor_diff_one if_True)
  next
    case False
    have "nat (\<lfloor>?q\<rfloor> - 1) < nat \<lfloor>?q\<rfloor> + 1"
      using fl by linarith
    with False ge show ?thesis
      by (simp only: in_measure eq floor_diff_one if_True if_False add_0_right)
  qed
qed

declare normalizeUp.simps [simp del] normalizeDown.simps [simp del]

definition normalizeAngle :: "real \<Rightarrow> real" where
  "normalizeAngle rayAngle = normalizeDown (normalizeUp rayAngle)"

subsection \<open>\<^verbatim>\<open>detectDrawnRaySectorPrize\<close>\<close>

text \<open>
  The \<^verbatim>\<open>for\<close> loop of lines 44 to 54, started as \<open>scanSectors sd rayAngle 0 (- \<pi>/2)\<close>. It
  returns the index \<open>i\<close> at which the source leaves the loop through its \<^verbatim>\<open>return\<close>, and
  \<^term>\<open>None\<close> when the loop runs to its end. When \<^verbatim>\<open>weights[i]\<close> is read past the end
  of the array the span is \<^verbatim>\<open>NaN\<close>, and so is every later \<^verbatim>\<open>currentAngle\<close>: no later
  comparison succeeds and the loop runs to its end.
\<close>

function scanSectors :: "sector_data \<Rightarrow> real \<Rightarrow> nat \<Rightarrow> real \<Rightarrow> nat option" where
  "scanSectors sd rayAngle i currentAngle =
     (if i < totalSectors sd then
        (if i < length (weights sd) then
           (let span = (weights sd ! i / totalWeight sd) * 2 * pi;
                endAngle = currentAngle + span
            in if rayAngle \<ge> currentAngle \<and> rayAngle < endAngle then Some i
               else scanSectors sd rayAngle (i + 1) endAngle)
         else None)
      else None)"
  by pat_completeness auto
termination
  by (relation "measure (\<lambda>(sd, rayAngle, i, currentAngle). totalSectors sd - i)") auto

declare scanSectors.simps [simp del]

text \<open>The angle the scan is run with: lines 31 to 40.\<close>

definition drawnRayAngle :: "real \<Rightarrow> real \<Rightarrow> real" where
  "drawnRayAngle headingX headingY =
     (let drawnRayX = - headingX;
          drawnRayY = headingY
      in normalizeAngle (atan2 drawnRayY drawnRayX))"

text \<open>
  The global state the functions share: \<^verbatim>\<open>sectorData\<close> (\<^verbatim>\<open>null\<close> is \<^term>\<open>None\<close>), the
  number shown in \<^verbatim>\<open>moneyDisplay.textContent\<close>, and the size of the background canvas.
\<close>

record game_state =
  sectorData :: "sector_data option"
  moneyDisplay :: int
  bgCanvasWidth :: real
  bgCanvasHeight :: real

definition detectDrawnRaySectorPrize :: "game_state \<Rightarrow> real \<Rightarrow> real \<Rightarrow> int" where
  "detectDrawnRaySectorPrize s headingX headingY =
     (case sectorData s of
        None \<Rightarrow> 0
      | Some sd \<Rightarrow>
          (case scanSectors sd (drawnRayAngle headingX headingY) 0 (- pi / 2) of
             Some i \<Rightarrow> prizeOf (js_index_opt (assignments sd) i)
           | None \<Rightarrow> 0))"

subsection \<open>\<^verbatim>\<open>calculateFaceHeading\<close>\<close>

text \<open>
  A landmark is an object \<^verbatim>\<open>{x, y, z}\<close>. The array of landmarks is read at three fixed
  indices only, so it is a partial map from index to landmark: an index the array does
  not have (or holds \<^verbatim>\<open>undefined\<close> at) reads \<^term>\<open>None\<close>.
\<close>

record landmark =
  lm_x :: real
  lm_y :: real
  lm_z :: real

record heading =
  heading_x :: real
  heading_y :: real

datatype error = TypeError

definition NOSE_TIP :: nat where "NOSE_TIP = 1"
definition LEFT_EAR_TRAGION :: nat where "LEFT_EAR_TRAGION = 234"
definition RIGHT_EAR_TRAGION :: nat where "RIGHT_EAR_TRAGION = 454"

text \<open>
  The three reads of lines 70 to 72 never throw. Line 77 reads \<^verbatim>\<open>leftEar.x\<close> first, then
  \<^verbatim>\<open>rightEar.x\<close>; line 84 reads \<^verbatim>\<open>nose.x\<close>. Reading a property of \<^verbatim>\<open>undefined\<close> throws a
  \<^verbatim>\<open>TypeError\<close>.
\<close>

definition calculateFaceHeading :: "(nat \<rightharpoonup> landmark) \<Rightarrow> error + heading" where
  "calculateFaceHeading landmarks =
     (let nose = landmarks NOSE_TIP;
          leftEar = landmarks LEFT_EAR_TRAGION;
          rightEar = landmarks RIGHT_EAR_TRAGION
      in case leftEar of
           None \<Rightarrow> Inl TypeError
         | Some l \<Rightarrow>
             (case rightEar of
                None \<Rightarrow> Inl TypeError
              | Some r \<Rightarrow>
                  (let midPoint = \<lparr>lm_x = (lm_x l + lm_x r) / 2,
                                   lm_y = (lm_y l + lm_y r) / 2,
                                   lm_z = (lm_z l + lm_z r) / 2\<rparr>
                   in case nose of
                        None \<Rightarrow> Inl TypeError
                      | Some n \<Rightarrow>
                          (let dirX = lm_x n - lm_x midPoint;
                               dirY = lm_y n - lm_y midPoint;
                               sensitivity = 20
                           in Inr \<lparr>heading_x = dirX * sensitivity,
                                   heading_y = dirY * sensitivity\<rparr>))))"

subsection \<open>\<^verbatim>\<open>onResults\<close>\<close>

text \<open>
  The body of the loop over \<^verbatim>\<open>results.multiFaceLandmarks\<close>, one landmark set per detected
  face. An exception of \<^verbatim>\<open>calculateFaceHeading\<close> is not caught: it leaves the loop and
  \<^verbatim>\<open>onResults\<close> with the state as it is at that moment.
\<close>

fun processFaces :: "(nat \<rightharpoonup> landmark) list \<Rightarrow> game_state \<Rightarrow> (error \<times> game_state) + game_state" where
  "processFaces [] s = Inr s"
| "processFaces (landmarks # rest) s =
     (case calculateFaceHeading landmarks of
        Inl e \<Rightarrow> Inl (e, s)
      | Inr h \<Rightarrow>
          (let prize = detectDrawnRaySectorPrize s (heading_x h) (heading_y h)
           in processFaces rest (s\<lparr>moneyDisplay := prize\<rparr>)))"

text \<open>\<^verbatim>\<open>results.multiFaceLandmarks\<close> is \<^verbatim>\<open>undefined\<close> when no face was detected.\<close>

record results =
  multiFaceLandmarks :: "(nat \<rightharpoonup> landmark) list option"

definition onResults :: "results \<Rightarrow> game_state \<Rightarrow> (error \<times> game_state) + game_state" where
  "onResults res s =
     (case multiFaceLandmarks res of
        None \<Rightarrow> Inr s
      | Some faces \<Rightarrow> processFaces faces s)"

subsection \<open>\<^verbatim>\<open>drawBackground\<close>\<close>

text \<open>One entry of the local array \<^verbatim>\<open>sectorAngles\<close>.\<close>

record sector_angle =
  startAngle :: real
  endAngle :: real
  midAngle :: real
  color :: "string option"

text \<open>
  The layout loop of lines 269 to 301, started as \<open>layoutSectors sd 0 (- \<pi>/2)\<close>; the result is
  \<^verbatim>\<open>sectorAngles\<close>, whose angles are also the ones passed to \<^verbatim>\<open>bgCtx.arc\<close>. Past the end of
  \<^verbatim>\<open>weights\<close> the source pushes entries whose angles are \<^verbatim>\<open>NaN\<close>; the reals have no such
  value, and the model ends the list there.
\<close>

function layoutSectors :: "sector_data \<Rightarrow> nat \<Rightarrow> real \<Rightarrow> sector_angle list" where
  "layoutSectors sd i currentAngle =
     (if i < totalSectors sd then
        (if i < length (weights sd) then
           (let span = (weights sd ! i / totalWeight sd) * 2 * pi;
                color = js_index_opt (assignments sd) i
            in \<lparr>startAngle = currentAngle,
                endAngle = currentAngle + span,
                midAngle = currentAngle + span / 2,
                color = color\<rparr>
               # layoutSectors sd (i + 1) (currentAngle + span))
         else [])
      else [])"
  by pat_completeness auto
termination
  by (relation "measure (\<lambda>(sd, i, currentAngle). totalSectors sd - i)") auto

declare layoutSectors.simps [simp del]

text \<open>
  \<^verbatim>\<open>drawBackground\<close> with the viewport \<open>(window.innerWidth, window.innerHeight)\<close> as a
  parameter. It returns the state and the sectors it has drawn.
\<close>

definition drawBackground :: "real \<times> real \<Rightarrow> game_state \<Rightarrow> game_state \<times> sector_angle list" where
  "drawBackground viewport s =
     (case sectorData s of
        None \<Rightarrow> (s, [])
      | Some sd \<Rightarrow>
          (s\<lparr>bgCanvasWidth := fst viewport, bgCanvasHeight := snd viewport\<rparr>,
           layoutSectors sd 0 (- pi / 2)))"

text \<open>The resize listener calls \<^verbatim>\<open>drawBackground\<close> once per resize event.\<close>

fun resizes :: "(real \<times> real) list \<Rightarrow> game_state \<Rightarrow> game_state" where
  "resizes [] s = s"
| "resizes (viewport # rest) s = resizes rest (fst (drawBackground viewport s))"

subsection \<open>\<^verbatim>\<open>initDynamicBackground\<close>\<close>

definition palette :: "string list" where
  "palette = [''#FF78A3'', ''#47D495'', ''#FFCC8D'', ''#87C9EA'', ''#C088D2'', ''#DDDDDD'']"

text \<open>
  \<^verbatim>\<open>while (assignments.length < totalSectors) assignments.push(palette[Math.floor(Math.random() * palette.length)])\<close>.
  The counter \<open>k\<close> is the number of calls of \<^verbatim>\<open>Math.random\<close> made so far.
\<close>

function fillAssignments ::
  "string list \<Rightarrow> nat \<Rightarrow> (nat \<Rightarrow> real) \<Rightarrow> string option list \<Rightarrow> nat \<Rightarrow> string option list \<times> nat" where
  "fillAssignments pal n rnd asg k =
     (if length asg < n
      then fillAssignments pal n rnd (asg @ [js_index pal \<lfloor>rnd k * real (length pal)\<rfloor>]) (k + 1)
      else (asg, k))"
  by pat_completeness auto
termination
  by (relation "measure (\<lambda>(pal, n, rnd, asg, k). n - length asg)") auto

declare fillAssignments.simps [simp del]

text \<open>
  \<^verbatim>\<open>[assignments[i], assignments[j]] = [assignments[j], assignments[i]]\<close>. With
  \<open>0 \<le> rnd k < 1\<close> the index \<open>j\<close> lies in \<open>0..i\<close>; for an index outside the array, which
  the source cannot draw, the model leaves the array as it is.
\<close>

definition swapElems :: "'a list \<Rightarrow> nat \<Rightarrow> int \<Rightarrow> 'a list" where
  "swapElems xs i j =
     (if 0 \<le> j \<and> nat j < length xs \<and> i < length xs
      then (xs[i := xs ! nat j])[nat j := xs ! i]
      else xs)"

text \<open>
  The shuffle loop \<^verbatim>\<open>for (let i = assignments.length - 1; i > 0; i--)\<close>, started as
  \<open>shuffle rnd asg (length asg - 1) k\<close> (for the empty array the source starts at \<open>-1\<close> and
  the model at 0: neither runs the body).
\<close>

fun shuffle :: "(nat \<Rightarrow> real) \<Rightarrow> 'a list \<Rightarrow> nat \<Rightarrow> nat \<Rightarrow> 'a list \<times> nat" where
  "shuffle rnd asg 0 k = (asg, k)"
| "shuffle rnd asg (Suc i') k =
     (let i = Suc i';
          j = \<lfloor>rnd k * real (i + 1)\<rfloor>
      in shuffle rnd (swapElems asg i j) i' (k + 1))"

text \<open>
  The body of \<^verbatim>\<open>initDynamicBackground\<close> up to the assignment of \<^verbatim>\<open>sectorData\<close>, with its two
  local constants \<^verbatim>\<open>palette\<close> and \<^verbatim>\<open>totalSectors\<close> as parameters. \<open>seedAssignments\<close> is the
  array after the fill loop, \<open>initAssignments\<close> the array after the shuffle.
\<close>

definition seedAssignments :: "string list \<Rightarrow> nat \<Rightarrow> (nat \<Rightarrow> real) \<Rightarrow> string option list \<times> nat" where
  "seedAssignments pal n rnd = fillAssignments pal n rnd (map Some pal) 0"

definition initAssignments :: "string list \<Rightarrow> nat \<Rightarrow> (nat \<Rightarrow> real) \<Rightarrow> string option list \<times> nat" where
  "initAssignments pal n rnd =
     (let (asg, k) = seedAssignments pal n rnd
      in shuffle rnd asg (length asg - 1) k)"

definition initSectorData :: "string list \<Rightarrow> nat \<Rightarrow> (nat \<Rightarrow> real) \<Rightarrow> sector_data" where
  "initSectorData pal n rnd =
     (let (asg, k) = initAssignments pal n rnd;
          ws = map (\<lambda>m. rnd (k + m) * 0.8 + 0.4) [0..<n];
          total = foldl (+) 0 ws
      in \<lparr>assignments = asg, weights = ws, totalWeight = total, totalSectors = n\<rparr>)"

definition initDynamicBackground ::
  "(nat \<Rightarrow> real) \<Rightarrow> real \<times> real \<Rightarrow> game_state \<Rightarrow> game_state \<times> sector_angle list" where
  "initDynamicBackground rnd viewport s =
     drawBackground viewport (s\<lparr>sectorData := Some (initSectorData palette 20 rnd)\<rparr>)"

subsection \<open>Wheels the generator produces\<close>

text \<open>
  What \<^verbatim>\<open>initDynamicBackground\<close> establishes of the stored wheel (lemma
  \<open>initSectorData_invariant\<close> below): the two arrays have \<^verbatim>\<open>totalSectors\<close> entries, every
  weight is positive, \<^verbatim>\<open>totalWeight\<close> is the sum of the weights, and every assignment is a
  palette colour.
\<close>

definition wheelInvariant :: "string list \<Rightarrow> sector_data \<Rightarrow> bool" where
  "wheelInvariant pal sd \<longleftrightarrow>
     0 < totalSectors sd \<and>
     length (weights sd) = totalSectors sd \<and>
     length (assignments sd) = totalSectors sd \<and>
     (\<forall>w \<in> set (weights sd). 0 < w) \<and>
     totalWeight sd = foldl (+) 0 (weights sd) \<and>
     (\<forall>c \<in> set (assignments sd). c \<in> Some ` set pal)"

text \<open>The bounds of sector \<open>i\<close> in closed form.\<close>

definition spanOf :: "sector_data \<Rightarrow> nat \<Rightarrow> real" where
  "spanOf sd i = (weights sd ! i / totalWeight sd) * 2 * pi"

definition startOf :: "sector_data \<Rightarrow> nat \<Rightarrow> real" where
  "startOf sd i = - pi / 2 + (\<Sum>j<i. spanOf sd j)"

text \<open>The half-open test of the scan, for sector \<open>k\<close>.\<close>

definition inSector :: "sector_data \<Rightarrow> real \<Rightarrow> nat \<Rightarrow> bool" where
  "inSector sd a k \<longleftrightarrow> startOf sd k \<le> a \<and> a < startOf sd (Suc k)"

subsection \<open>Concrete inputs\<close>

text \<open>
  Three equal sectors of 120 degrees starting at 12 o'clock: \<open>[-\<pi>/2, \<pi>/6)\<close>,
  \<open>[\<pi>/6, 5\<pi>/6)\<close> and \<open>[5\<pi>/6, 3\<pi>/2)\<close>.
\<close>

definition exampleWheel :: sector_data where
  "exampleWheel =
     \<lparr>assignments = [Some ''#FF78A3'', Some ''#47D495'', Some ''#FFCC8D''],
      weights = [1, 1, 1],
      totalWeight = 3,
      totalSectors = 3\<rparr>"


definition stateWith :: "sector_data option \<Rightarrow> int \<Rightarrow> game_state" where
  "stateWith sdo shown =
     \<lparr>sectorData = sdo, moneyDisplay = shown, bgCanvasWidth = 1920, bgCanvasHeight = 1080\<rparr>"


text \<open>A face turned up and to one side: the heading is \<open>(2, -1)\<close>.\<close>

definition tiltedFace :: "nat \<rightharpoonup> landmark" where
  "tiltedFace =
     [NOSE_TIP \<mapsto> \<lparr>lm_x = 0.6, lm_y = 0.45, lm_z = 0\<rparr>,
      LEFT_EAR_TRAGION \<mapsto> \<lparr>lm_x = 0.4, lm_y = 0.5, lm_z = 0.1\<rparr>,
      RIGHT_EAR_TRAGION \<mapsto> \<lparr>lm_x = 0.6, lm_y = 0.5, lm_z = 0.3\<rparr>]"

definition earlessFace :: "nat \<rightharpoonup> landmark" where
  "earlessFace =
     [NOSE_TIP \<mapsto> \<lparr>lm_x = 0.55, lm_y = 0.5, lm_z = 0\<rparr>,
      LEFT_EAR_TRAGION \<mapsto> \<lparr>lm_x = 0.4, lm_y = 0.5, lm_z = 0.1\<rparr>]"

section \<open>Properties of the layout and of the scan\<close>

subsection \<open>Sums of weights and spans\<close>

lemma foldl_add_sum_list: "foldl (+) a ws = a + sum_list (ws :: real list)"
  by (induction ws arbitrary: a) simp_all

lemma totalWeight_sum:
  assumes "wheelInvariant pal sd"
  shows "totalWeight sd = (\<Sum>j<totalSectors sd. weights sd ! j)"
proof -
  have "totalWeight sd = sum_list (weights sd)"
    using assms by (simp add: wheelInvariant_def foldl_add_sum_list)
  also have "\<dots> = (\<Sum>j = 0..<length (weights sd). weights sd ! j)"
    by (rule sum_list_sum_nth)
  finally show ?thesis
    using assms by (simp add: wheelInvariant_def lessThan_atLeast0)
qed

lemma totalWeight_pos:
  assumes "wheelInvariant pal sd"
  shows "0 < totalWeight sd"
proof -
  have "0 < (\<Sum>j<totalSectors sd. weights sd ! j)"
  proof (rule sum_pos)
    show "finite {..<totalSectors sd}" by simp
    show "{..<totalSectors sd} \<noteq> {}" using assms by (auto simp: wheelInvariant_def)
    fix i assume "i \<in> {..<totalSectors sd}"
    then show "0 < weights sd ! i"
      using assms by (simp add: wheelInvariant_def)
  qed
  then show ?thesis
    by (simp add: totalWeight_sum [OF assms])
qed

lemma spanOf_pos:
  assumes "wheelInvariant pal sd" and "i < totalSectors sd"
  shows "0 < spanOf sd i"
proof -
  have "0 < weights sd ! i"
    using assms by (simp add: wheelInvariant_def)
  then show ?thesis
    using totalWeight_pos [OF assms(1)] by (simp add: spanOf_def)
qed

lemma sum_spanOf:
  assumes "wheelInvariant pal sd"
  shows "(\<Sum>j<totalSectors sd. spanOf sd j) = 2 * pi"
proof -
  have "(\<Sum>j<totalSectors sd. spanOf sd j) = (\<Sum>j<totalSectors sd. weights sd ! j) / totalWeight sd * (2 * pi)"
    by (simp add: spanOf_def sum_divide_distrib sum_distrib_right mult.assoc)
  also have "\<dots> = 2 * pi"
    using totalWeight_pos [OF assms] by (simp add: totalWeight_sum [OF assms, symmetric])
  finally show ?thesis .
qed

lemma startOf_0: "startOf sd 0 = - pi / 2"
  by (simp add: startOf_def)

lemma startOf_Suc: "startOf sd (Suc i) = startOf sd i + spanOf sd i"
  by (simp add: startOf_def)

lemma startOf_total:
  assumes "wheelInvariant pal sd"
  shows "startOf sd (totalSectors sd) = 3 * pi / 2"
  by (simp add: startOf_def sum_spanOf [OF assms])

lemma startOf_mono:
  assumes "wheelInvariant pal sd" and "i \<le> j" and "j \<le> totalSectors sd"
  shows "startOf sd i \<le> startOf sd j"
  using assms(2,3)
proof (induction j)
  case 0
  then show ?case by simp
next
  case (Suc j)
  show ?case
  proof (cases "i = Suc j")
    case True
    then show ?thesis by simp
  next
    case False
    with Suc have "startOf sd i \<le> startOf sd j" by simp
    moreover have "0 < spanOf sd j"
      using Suc.prems by (intro spanOf_pos [OF assms(1)]) simp
    ultimately show ?thesis by (simp add: startOf_Suc)
  qed
qed

lemma startOf_strict:
  assumes "wheelInvariant pal sd" and "i < j" and "j \<le> totalSectors sd"
  shows "startOf sd i < startOf sd j"
proof -
  have "startOf sd (Suc i) \<le> startOf sd j"
    using assms by (intro startOf_mono [OF assms(1)]) simp_all
  moreover have "0 < spanOf sd i"
    using assms by (intro spanOf_pos [OF assms(1)]) simp
  ultimately show ?thesis by (simp add: startOf_Suc)
qed

lemma layoutSectors_closed:
  assumes "length (weights sd) = totalSectors sd" and "i \<le> totalSectors sd"
  shows "layoutSectors sd i (startOf sd i) =
         map (\<lambda>k. \<lparr>startAngle = startOf sd k, endAngle = startOf sd (Suc k),
                    midAngle = startOf sd k + spanOf sd k / 2,
                    color = js_index_opt (assignments sd) k\<rparr>) [i..<totalSectors sd]"
  using assms(2)
proof (induction "totalSectors sd - i" arbitrary: i)
  case 0
  then show ?case by (subst layoutSectors.simps) simp
next
  case (Suc d)
  then have lt: "i < totalSectors sd" by simp
  have ih: "layoutSectors sd (Suc i) (startOf sd (Suc i)) =
         map (\<lambda>k. \<lparr>startAngle = startOf sd k, endAngle = startOf sd (Suc k),
                    midAngle = startOf sd k + spanOf sd k / 2,
                    color = js_index_opt (assignments sd) k\<rparr>) [Suc i..<totalSectors sd]"
    using Suc by (intro Suc.hyps(1)) simp_all
  show ?case
    using lt assms(1) ih
    by (subst layoutSectors.simps) (simp add: upt_conv_Cons startOf_Suc spanOf_def Let_def)
qed



lemma sector_exists:
  fixes f :: "nat \<Rightarrow> real"
  assumes "f 0 \<le> a" and "a < f n"
  shows "\<exists>k<n. f k \<le> a \<and> a < f (Suc k)"
  using assms(2)
proof (induction n)
  case 0
  with assms(1) show ?case by simp
next
  case (Suc n)
  show ?case
  proof (cases "a < f n")
    case True
    with Suc.IH obtain k where "k < n" "f k \<le> a" "a < f (Suc k)" by blast
    then show ?thesis by (intro exI [of _ k]) simp
  next
    case False
    with Suc.prems show ?thesis by (intro exI [of _ n]) simp
  qed
qed

lemma inSector_unique:
  assumes "wheelInvariant pal sd" and "inSector sd a i" and "inSector sd a j"
    and "i < totalSectors sd" and "j < totalSectors sd"
  shows "i = j"
proof (rule ccontr)
  assume "i \<noteq> j"
  then consider "i < j" | "j < i" by linarith
  then show False
  proof cases
    case 1
    then have "startOf sd (Suc i) \<le> startOf sd j"
      using assms by (intro startOf_mono [OF assms(1)]) simp_all
    with assms(2,3) show False by (simp add: inSector_def)
  next
    case 2
    then have "startOf sd (Suc j) \<le> startOf sd i"
      using assms by (intro startOf_mono [OF assms(1)]) simp_all
    with assms(2,3) show False by (simp add: inSector_def)
  qed
qed

subsection \<open>Normalisation and the angle of the drawn ray\<close>


lemma normalizeUp_upper: "a < 3 * pi / 2 \<Longrightarrow> normalizeUp a < 3 * pi / 2"
proof (induction a rule: normalizeUp.induct)
  case (1 a)
  show ?case
  proof (cases "a < - pi / 2")
    case True
    then have "a + 2 * pi < 3 * pi / 2" by simp
    with True 1 show ?thesis by (subst normalizeUp.simps) simp
  next
    case False
    with 1 show ?thesis by (subst normalizeUp.simps) simp
  qed
qed


















subsection \<open>The layout in closed form, and what the scan finds\<close>

lemma layout_nth:
  assumes "length (weights sd) = totalSectors sd" and "i < totalSectors sd"
  shows "layoutSectors sd 0 (- pi / 2) ! i =
         \<lparr>startAngle = startOf sd i, endAngle = startOf sd (Suc i),
          midAngle = startOf sd i + spanOf sd i / 2,
          color = js_index_opt (assignments sd) i\<rparr>"
  using layoutSectors_closed [OF assms(1), of 0] assms(2)
  by (simp add: startOf_0)

lemma layout_length:
  assumes "length (weights sd) = totalSectors sd"
  shows "length (layoutSectors sd 0 (- pi / 2)) = totalSectors sd"
  using layoutSectors_closed [OF assms, of 0]
  by (simp add: startOf_0)

lemma layout_inSector:
  assumes "length (weights sd) = totalSectors sd" and "i < totalSectors sd"
  shows "startAngle (layoutSectors sd 0 (- pi / 2) ! i) \<le> a \<and> a < endAngle (layoutSectors sd 0 (- pi / 2) ! i)
         \<longleftrightarrow> inSector sd a i"
  by (simp only: layout_nth [OF assms] inSector_def sector_angle.simps)

lemma inSector_exists:
  assumes "wheelInvariant pal sd" and "- pi / 2 \<le> a" and "a < 3 * pi / 2"
  shows "\<exists>k<totalSectors sd. inSector sd a k"
proof -
  have "startOf sd 0 \<le> a"
    using assms(2) by (simp only: startOf_0)
  moreover have "a < startOf sd (totalSectors sd)"
    using assms(3) by (simp only: startOf_total [OF assms(1)])
  ultimately show ?thesis
    unfolding inSector_def by (rule sector_exists)
qed

lemma inSector_range:
  assumes "wheelInvariant pal sd" and "k < totalSectors sd" and "inSector sd a k"
  shows "- pi / 2 \<le> a \<and> a < 3 * pi / 2"
proof -
  have "startOf sd 0 \<le> startOf sd k"
    using assms(2) by (intro startOf_mono [OF assms(1)]) simp_all
  moreover have "startOf sd (Suc k) \<le> startOf sd (totalSectors sd)"
    using assms(2) by (intro startOf_mono [OF assms(1)]) simp_all
  ultimately show ?thesis
    using assms(3) by (simp add: inSector_def startOf_0 startOf_total [OF assms(1)])
qed


lemma wheelInvariant_exampleWheel: "wheelInvariant palette exampleWheel"
  by (simp add: wheelInvariant_def exampleWheel_def palette_def)

subsection \<open>The example wheel\<close>



section \<open>The partition of the turn\<close>

text \<open>
  Claim C3 (partition invariant). For a wheel as \<^verbatim>\<open>initDynamicBackground\<close> stores it (the
  invariant \<open>wheelInvariant\<close>; lemma \<open>initSectorData_invariant\<close> shows that every
  generated wheel has it), the sectors \<^verbatim>\<open>drawBackground\<close> lays out are as many as
  \<^verbatim>\<open>totalSectors\<close>; the first starts at \<open>-\<pi>/2\<close>; each spans
  \<open>(weight / totalWeight) \<cdot> 2\<pi>\<close>, which is positive; each ends where the next starts;
  the spans sum to \<open>2\<pi>\<close>; the last ends at \<open>3\<pi>/2\<close>; an angle lies in the half-open
  range of some sector exactly when it lies in \<open>[-\<pi>/2, 3\<pi>/2)\<close>, and then in one
  sector only. Numbers are reals, so the equalities are exact.
\<close>

theorem partition_invariant:
  assumes "wheelInvariant pal sd"
    and "sa = snd (drawBackground viewport (s\<lparr>sectorData := Some sd\<rparr>))"
  shows "length sa = totalSectors sd \<and>
         startAngle (sa ! 0) = - pi / 2 \<and>
         (\<forall>i<totalSectors sd.
            endAngle (sa ! i) - startAngle (sa ! i) = (weights sd ! i / totalWeight sd) * 2 * pi \<and>
            startAngle (sa ! i) < endAngle (sa ! i)) \<and>
         (\<forall>i. Suc i < totalSectors sd \<longrightarrow> endAngle (sa ! i) = startAngle (sa ! Suc i)) \<and>
         (\<Sum>i<totalSectors sd. endAngle (sa ! i) - startAngle (sa ! i)) = 2 * pi \<and>
         endAngle (last sa) = 3 * pi / 2 \<and>
         (\<forall>a. (\<exists>i<totalSectors sd. startAngle (sa ! i) \<le> a \<and> a < endAngle (sa ! i))
               \<longleftrightarrow> - pi / 2 \<le> a \<and> a < 3 * pi / 2) \<and>
         (\<forall>a i j. i < totalSectors sd \<and> j < totalSectors sd \<and>
                  startAngle (sa ! i) \<le> a \<and> a < endAngle (sa ! i) \<and>
                  startAngle (sa ! j) \<le> a \<and> a < endAngle (sa ! j) \<longrightarrow> i = j)"
proof -
  let ?n = "totalSectors sd"
  have len: "length (weights sd) = ?n" and pos: "0 < ?n"
    using assms(1) by (simp_all add: wheelInvariant_def)
  have sa: "sa = layoutSectors sd 0 (- pi / 2)"
    using assms(2) by (simp add: drawBackground_def)
  have nth: "\<And>i. i < ?n \<Longrightarrow> startAngle (sa ! i) = startOf sd i \<and> endAngle (sa ! i) = startOf sd (Suc i)"
    unfolding sa by (simp only: layout_nth [OF len] sector_angle.simps)
  have mem: "\<And>a i. i < ?n \<Longrightarrow> (startAngle (sa ! i) \<le> a \<and> a < endAngle (sa ! i)) = inSector sd a i"
    unfolding sa by (rule layout_inSector [OF len])
  have c1: "length sa = ?n"
    unfolding sa by (rule layout_length [OF len])
  have c2: "startAngle (sa ! 0) = - pi / 2"
    using nth [OF pos] by (simp only: startOf_0)
  have c3: "\<forall>i<?n. endAngle (sa ! i) - startAngle (sa ! i) = (weights sd ! i / totalWeight sd) * 2 * pi \<and>
            startAngle (sa ! i) < endAngle (sa ! i)"
  proof (intro allI impI)
    fix i assume i: "i < ?n"
    have "0 < spanOf sd i"
      by (rule spanOf_pos [OF assms(1) i])
    then show "endAngle (sa ! i) - startAngle (sa ! i) = (weights sd ! i / totalWeight sd) * 2 * pi \<and>
            startAngle (sa ! i) < endAngle (sa ! i)"
      using nth [OF i] by (simp add: startOf_Suc) (simp add: spanOf_def)
  qed
  have c4: "\<forall>i. Suc i < ?n \<longrightarrow> endAngle (sa ! i) = startAngle (sa ! Suc i)"
  proof (intro allI impI)
    fix i assume i: "Suc i < ?n"
    then have "i < ?n" by simp
    from nth [OF this] nth [OF i] show "endAngle (sa ! i) = startAngle (sa ! Suc i)"
      by simp
  qed
  have "(\<Sum>i<?n. endAngle (sa ! i) - startAngle (sa ! i)) = (\<Sum>i<?n. spanOf sd i)"
    by (rule sum.cong) (simp_all add: nth startOf_Suc)
  then have c5: "(\<Sum>i<?n. endAngle (sa ! i) - startAngle (sa ! i)) = 2 * pi"
    by (simp only: sum_spanOf [OF assms(1)])
  have "sa \<noteq> []"
    using c1 pos by auto
  then have "last sa = sa ! (length sa - 1)"
    by (rule last_conv_nth)
  then have "last sa = sa ! (?n - 1)"
    by (simp only: c1)
  moreover have "endAngle (sa ! (?n - 1)) = startOf sd ?n"
    using nth [of "?n - 1"] pos by simp
  ultimately have c6: "endAngle (last sa) = 3 * pi / 2"
    by (simp only: startOf_total [OF assms(1)])
  have c7: "\<forall>a. (\<exists>i<?n. startAngle (sa ! i) \<le> a \<and> a < endAngle (sa ! i))
               \<longleftrightarrow> - pi / 2 \<le> a \<and> a < 3 * pi / 2"
  proof (intro allI iffI)
    fix a assume "\<exists>i<?n. startAngle (sa ! i) \<le> a \<and> a < endAngle (sa ! i)"
    then obtain i where "i < ?n" "inSector sd a i"
      using mem by blast
    then show "- pi / 2 \<le> a \<and> a < 3 * pi / 2"
      by (rule inSector_range [OF assms(1)])
  next
    fix a assume "- pi / 2 \<le> a \<and> a < 3 * pi / 2"
    then obtain k where "k < ?n" "inSector sd a k"
      using inSector_exists [OF assms(1), of a] by blast
    then show "\<exists>i<?n. startAngle (sa ! i) \<le> a \<and> a < endAngle (sa ! i)"
      using mem by blast
  qed
  have c8: "\<forall>a i j. i < ?n \<and> j < ?n \<and>
                  startAngle (sa ! i) \<le> a \<and> a < endAngle (sa ! i) \<and>
                  startAngle (sa ! j) \<le> a \<and> a < endAngle (sa ! j) \<longrightarrow> i = j"
  proof (intro allI impI)
    fix a i j
    assume h: "i < ?n \<and> j < ?n \<and>
                  startAngle (sa ! i) \<le> a \<and> a < endAngle (sa ! i) \<and>
                  startAngle (sa ! j) \<le> a \<and> a < endAngle (sa ! j)"
    then have "inSector sd a i" "inSector sd a j"
      using mem by blast+
    then show "i = j"
      using h by (intro inSector_unique [OF assms(1)]) simp_all
  qed
  from c1 c2 c3 c4 c5 c6 c7 c8 show ?thesis
    by (intro conjI)
qed

theorem partition_invariant_witness:
  "wheelInvariant palette exampleWheel \<and>
   length (layoutSectors exampleWheel 0 (- pi / 2)) = 3 \<and>
   endAngle (last (layoutSectors exampleWheel 0 (- pi / 2))) = 3 * pi / 2 \<and>
   (\<Sum>i<3. endAngle (layoutSectors exampleWheel 0 (- pi / 2) ! i)
            - startAngle (layoutSectors exampleWheel 0 (- pi / 2) ! i)) = 2 * pi"
proof -
  have sa: "layoutSectors exampleWheel 0 (- pi / 2)
      = snd (drawBackground (800, 600) ((stateWith None 0)\<lparr>sectorData := Some exampleWheel\<rparr>))"
    by (simp add: drawBackground_def)
  have n: "totalSectors exampleWheel = 3"
    by (simp add: exampleWheel_def)
  from partition_invariant [OF wheelInvariant_exampleWheel sa] show ?thesis
    using wheelInvariant_exampleWheel by (simp only: n)
qed

section \<open>The generator\<close>

lemma random_index_in_range:
  assumes "0 \<le> r" and "r < 1" and "0 < m"
  shows "0 \<le> \<lfloor>r * real m\<rfloor> \<and> nat \<lfloor>r * real m\<rfloor> < m"
proof -
  have "0 \<le> r * real m"
    using assms(1) by simp
  then have lo: "0 \<le> \<lfloor>r * real m\<rfloor>"
    by simp
  have "r * real m < real m"
    using assms(2,3) by simp
  then have "\<lfloor>r * real m\<rfloor> < int m"
    by (simp add: floor_less_iff)
  with lo show ?thesis
    by linarith
qed

lemma js_index_palette:
  assumes "0 \<le> r" and "r < 1" and "pal \<noteq> []"
  shows "js_index pal \<lfloor>r * real (length pal)\<rfloor> \<in> Some ` set pal"
proof -
  have "0 < length pal"
    using assms(3) by simp
  from random_index_in_range [OF assms(1,2) this] show ?thesis
    by (simp add: js_index_def)
qed

lemma fillAssignments_length:
  "length (fst (fillAssignments pal n rnd asg k)) = max (length asg) n"
proof (induction pal n rnd asg k rule: fillAssignments.induct)
  case (1 pal n rnd asg k)
  show ?case
  proof (cases "length asg < n")
    case True
    with 1 show ?thesis
      by (subst fillAssignments.simps) (simp add: max_def)
  next
    case False
    then show ?thesis
      by (subst fillAssignments.simps) (simp add: max_def)
  qed
qed

lemma fillAssignments_keeps:
  "set asg \<subseteq> set (fst (fillAssignments pal n rnd asg k))"
proof (induction pal n rnd asg k rule: fillAssignments.induct)
  case (1 pal n rnd asg k)
  show ?case
  proof (cases "length asg < n")
    case True
    with 1 show ?thesis
      by (subst fillAssignments.simps) auto
  next
    case False
    then show ?thesis
      by (subst fillAssignments.simps) simp
  qed
qed

lemma fillAssignments_members:
  "(\<forall>k. 0 \<le> rnd k \<and> rnd k < 1) \<Longrightarrow> pal \<noteq> [] \<Longrightarrow> set asg \<subseteq> Some ` set pal
   \<Longrightarrow> set (fst (fillAssignments pal n rnd asg k)) \<subseteq> Some ` set pal"
proof (induction pal n rnd asg k rule: fillAssignments.induct)
  case (1 pal n rnd asg k)
  show ?case
  proof (cases "length asg < n")
    case True
    have "js_index pal \<lfloor>rnd k * real (length pal)\<rfloor> \<in> Some ` set pal"
      using 1(2,3) by (intro js_index_palette) simp_all
    then have "set (asg @ [js_index pal \<lfloor>rnd k * real (length pal)\<rfloor>]) \<subseteq> Some ` set pal"
      using 1(4) by simp
    from 1(1) [OF True 1(2,3) this] True show ?thesis
      by (subst fillAssignments.simps) simp
  next
    case False
    with 1(4) show ?thesis
      by (subst fillAssignments.simps) simp
  qed
qed

lemma mset_swapElems: "mset (swapElems xs i j) = mset xs"
  by (simp add: swapElems_def mset_swap)

lemma swapElems_in_contract:
  assumes "0 \<le> r" and "r < 1" and "i < length xs"
  shows "swapElems xs i \<lfloor>r * real (i + 1)\<rfloor>
         = (xs[i := xs ! nat \<lfloor>r * real (i + 1)\<rfloor>])[nat \<lfloor>r * real (i + 1)\<rfloor> := xs ! i]"
proof -
  have "0 < i + 1" by simp
  from random_index_in_range [OF assms(1,2) this] assms(3) show ?thesis
    by (simp add: swapElems_def)
qed

lemma mset_shuffle: "mset (fst (shuffle rnd asg i k)) = mset asg"
  by (induction rnd asg i k rule: shuffle.induct) (simp_all add: Let_def mset_swapElems)

lemma length_shuffle: "length (fst (shuffle rnd asg i k)) = length asg"
  using mset_shuffle [of rnd asg i k] by (metis size_mset)

lemma set_shuffle: "set (fst (shuffle rnd asg i k)) = set asg"
  using mset_shuffle [of rnd asg i k] by (metis set_mset_mset)

lemma seedAssignments_props:
  assumes "length pal \<le> n"
  shows "length (fst (seedAssignments pal n rnd)) = n"
    and "\<forall>c \<in> set pal. Some c \<in> set (fst (seedAssignments pal n rnd))"
proof -
  show "length (fst (seedAssignments pal n rnd)) = n"
    using assms by (simp add: seedAssignments_def fillAssignments_length)
  have "set (map Some pal) \<subseteq> set (fst (seedAssignments pal n rnd))"
    unfolding seedAssignments_def by (rule fillAssignments_keeps)
  then show "\<forall>c \<in> set pal. Some c \<in> set (fst (seedAssignments pal n rnd))"
    by auto
qed

lemma initAssignments_shuffle:
  "fst (initAssignments pal n rnd) =
   fst (shuffle rnd (fst (seedAssignments pal n rnd))
          (length (fst (seedAssignments pal n rnd)) - 1) (snd (seedAssignments pal n rnd)))"
  by (simp add: initAssignments_def split_beta)

lemma initSectorData_fields:
  "assignments (initSectorData pal n rnd) = fst (initAssignments pal n rnd)"
  "weights (initSectorData pal n rnd) = map (\<lambda>m. rnd (snd (initAssignments pal n rnd) + m) * 0.8 + 0.4) [0..<n]"
  "totalWeight (initSectorData pal n rnd) = foldl (+) 0 (weights (initSectorData pal n rnd))"
  "totalSectors (initSectorData pal n rnd) = n"
  by (simp_all add: initSectorData_def split_beta Let_def)

lemma initSectorData_invariant:
  assumes "\<forall>k. 0 \<le> rnd k \<and> rnd k < 1" and "pal \<noteq> []" and "length pal \<le> n"
  shows "wheelInvariant pal (initSectorData pal n rnd)"
proof -
  have "0 < length pal"
    using assms(2) by simp
  then have n: "0 < n"
    using assms(3) by linarith
  have len: "length (assignments (initSectorData pal n rnd)) = n"
    by (simp add: initSectorData_fields(1) initAssignments_shuffle length_shuffle
        seedAssignments_props(1) [OF assms(3)])
  have "set (map Some pal) \<subseteq> Some ` set pal"
    by auto
  then have "set (fst (seedAssignments pal n rnd)) \<subseteq> Some ` set pal"
    unfolding seedAssignments_def by (rule fillAssignments_members [OF assms(1,2)])
  then have mem: "\<forall>c \<in> set (assignments (initSectorData pal n rnd)). c \<in> Some ` set pal"
    by (auto simp: initSectorData_fields(1) initAssignments_shuffle set_shuffle)
  have w: "\<forall>w \<in> set (weights (initSectorData pal n rnd)). 0 < w"
  proof
    fix w assume "w \<in> set (weights (initSectorData pal n rnd))"
    then obtain m where "w = rnd (snd (initAssignments pal n rnd) + m) * 0.8 + 0.4"
      by (auto simp: initSectorData_fields(2))
    moreover have "0 \<le> rnd (snd (initAssignments pal n rnd) + m)"
      using assms(1) by simp
    ultimately show "0 < w"
      by simp
  qed
  show ?thesis
    unfolding wheelInvariant_def
    using n len mem w
    by (simp add: initSectorData_fields(3,4)) (simp add: initSectorData_fields(2))
qed

lemma initDynamicBackground_stores:
  "sectorData (fst (initDynamicBackground rnd viewport s)) = Some (initSectorData palette 20 rnd)"
  by (simp add: initDynamicBackground_def drawBackground_def)

lemma initDynamicBackground_invariant:
  assumes "\<forall>k. 0 \<le> rnd k \<and> rnd k < 1"
  shows "\<exists>sd. sectorData (fst (initDynamicBackground rnd viewport s)) = Some sd \<and> wheelInvariant palette sd"
proof -
  have "palette \<noteq> []" "length palette \<le> 20"
    by (simp_all add: palette_def)
  from initSectorData_invariant [OF assms this] show ?thesis
    by (simp add: initDynamicBackground_stores)
qed

text \<open>
  Claim C4 (full palette coverage). For every palette and every target count \<open>n\<close> not
  below the palette's size, with \<^verbatim>\<open>Math.random\<close> returning values in \<open>[0, 1)\<close>: the array
  after the fill loop has \<open>n\<close> entries and holds every palette colour; the shuffle
  leaves the multiset of entries as it is, so the shuffled array also has \<open>n\<close> entries
  and holds every palette colour; and it is the array stored in \<^verbatim>\<open>sectorData\<close>.
\<close>

theorem palette_coverage:
  assumes "\<forall>k. 0 \<le> rnd k \<and> rnd k < 1" and "length pal \<le> n"
  shows "length (fst (seedAssignments pal n rnd)) = n \<and>
         (\<forall>c \<in> set pal. Some c \<in> set (fst (seedAssignments pal n rnd))) \<and>
         mset (fst (initAssignments pal n rnd)) = mset (fst (seedAssignments pal n rnd)) \<and>
         length (fst (initAssignments pal n rnd)) = n \<and>
         (\<forall>c \<in> set pal. Some c \<in> set (fst (initAssignments pal n rnd))) \<and>
         assignments (initSectorData pal n rnd) = fst (initAssignments pal n rnd)"
proof -
  have m: "mset (fst (initAssignments pal n rnd)) = mset (fst (seedAssignments pal n rnd))"
    by (simp only: initAssignments_shuffle mset_shuffle)
  then have l: "length (fst (initAssignments pal n rnd)) = length (fst (seedAssignments pal n rnd))"
    by (metis size_mset)
  from m have s: "set (fst (initAssignments pal n rnd)) = set (fst (seedAssignments pal n rnd))"
    by (metis set_mset_mset)
  show ?thesis
    using seedAssignments_props [OF assms(2), of rnd] m l s
    by (simp add: initSectorData_fields(1))
qed

theorem palette_coverage_witness:
  "(\<forall>k. (0::real) \<le> (\<lambda>_. 1 / 2) k \<and> (\<lambda>_. 1 / 2) k < (1::real)) \<and> length palette \<le> 20 \<and>
   length (assignments (initSectorData palette 20 (\<lambda>_. 1 / 2))) = 20 \<and>
   Some ''#DDDDDD'' \<in> set (assignments (initSectorData palette 20 (\<lambda>_. 1 / 2))) \<and>
   mset (assignments (initSectorData palette 20 (\<lambda>_. 1 / 2)))
     = mset (fst (seedAssignments palette 20 (\<lambda>_. 1 / 2)))"
proof -
  have h1: "\<forall>k. (0::real) \<le> (\<lambda>_. 1 / 2) k \<and> (\<lambda>_. 1 / 2) k < (1::real)"
    by simp
  have h2: "length palette \<le> 20"
    by (simp add: palette_def)
  have h3: "''#DDDDDD'' \<in> set palette"
    by (simp add: palette_def)
  from palette_coverage [OF h1 h2] h1 h2 h3 show ?thesis
    by simp
qed

section \<open>The resolver\<close>



















section \<open>The per-frame callback and the redraw\<close>

lemma calculateFaceHeading_missing:
  assumes "landmarks NOSE_TIP = None \<or> landmarks LEFT_EAR_TRAGION = None \<or> landmarks RIGHT_EAR_TRAGION = None"
  shows "calculateFaceHeading landmarks = Inl TypeError"
  using assms by (auto simp: calculateFaceHeading_def Let_def split: option.splits)

lemma calculateFaceHeading_present:
  assumes "landmarks NOSE_TIP = Some n" and "landmarks LEFT_EAR_TRAGION = Some l"
    and "landmarks RIGHT_EAR_TRAGION = Some r"
  shows "calculateFaceHeading landmarks =
         Inr \<lparr>heading_x = 20 * (lm_x n - (lm_x l + lm_x r) / 2),
              heading_y = 20 * (lm_y n - (lm_y l + lm_y r) / 2)\<rparr>"
  using assms by (simp add: calculateFaceHeading_def Let_def)

lemma processFaces_append:
  "processFaces pre s = Inr s' \<Longrightarrow> processFaces (pre @ rest) s = processFaces rest s'"
  by (induction pre arbitrary: s) (auto simp: Let_def split: sum.splits)

lemma processFaces_sectorData:
  "(case processFaces faces s of Inl (e, s') \<Rightarrow> sectorData s' = sectorData s
                               | Inr s' \<Rightarrow> sectorData s' = sectorData s)"
proof (induction faces arbitrary: s)
  case Nil
  show ?case by simp
next
  case (Cons landmarks rest)
  show ?case
  proof (cases "calculateFaceHeading landmarks")
    case (Inl e)
    then show ?thesis by simp
  next
    case (Inr h)
    let ?s = "s\<lparr>moneyDisplay := detectDrawnRaySectorPrize s (heading_x h) (heading_y h)\<rparr>"
    from Cons [of ?s] Inr show ?thesis
      by (simp add: Let_def split: sum.splits prod.splits)
  qed
qed

lemma resizes_sectorData: "sectorData (resizes viewports s) = sectorData s"
  by (induction viewports arbitrary: s) (simp_all add: drawBackground_def split: option.splits)

lemma resizes_moneyDisplay: "moneyDisplay (resizes viewports s) = moneyDisplay s"
  by (induction viewports arbitrary: s) (simp_all add: drawBackground_def split: option.splits)

lemma resizes_geometry:
  "\<exists>w h. resizes viewports s = s\<lparr>bgCanvasWidth := w, bgCanvasHeight := h\<rparr>"
proof (induction viewports arbitrary: s)
  case Nil
  have "s = s\<lparr>bgCanvasWidth := bgCanvasWidth s, bgCanvasHeight := bgCanvasHeight s\<rparr>"
    by simp
  then show ?case by (metis resizes.simps(1))
next
  case (Cons viewport rest)
  show ?case
  proof (cases "sectorData s")
    case None
    with Cons [of s] show ?thesis by (simp add: drawBackground_def)
  next
    case (Some sd)
    let ?s = "s\<lparr>bgCanvasWidth := fst viewport, bgCanvasHeight := snd viewport\<rparr>"
    from Cons [of ?s] obtain w h where "resizes rest ?s = ?s\<lparr>bgCanvasWidth := w, bgCanvasHeight := h\<rparr>"
      by blast
    with Some show ?thesis
      by (simp add: drawBackground_def) blast
  qed
qed

lemma drawBackground_layout:
  "snd (drawBackground viewport s) = (case sectorData s of None \<Rightarrow> [] | Some sd \<Rightarrow> layoutSectors sd 0 (- pi / 2))"
  by (simp add: drawBackground_def split: option.splits)

text \<open>
  Claim C9 (resize frame condition). After any number of resize events the stored wheel
  and the number on display are what they were, and the state differs from the one
  before in the size of the background canvas at most. The sectors a redraw lays out
  (angles and colours) are the same for every viewport, before and after the resizes.
  \<^verbatim>\<open>onResults\<close> leaves the stored wheel as it is, whether it returns or throws, and the
  resolver, which only reads the state, gives the same prize before and after the
  resizes.
\<close>

theorem resize_frame_condition:
  "sectorData (resizes viewports s) = sectorData s \<and>
   moneyDisplay (resizes viewports s) = moneyDisplay s \<and>
   (\<exists>w h. resizes viewports s = s\<lparr>bgCanvasWidth := w, bgCanvasHeight := h\<rparr>) \<and>
   snd (drawBackground viewport (resizes viewports s)) = snd (drawBackground viewport' s) \<and>
   (case onResults res s of Inl (e, s') \<Rightarrow> sectorData s' = sectorData s
                          | Inr s' \<Rightarrow> sectorData s' = sectorData s) \<and>
   detectDrawnRaySectorPrize (resizes viewports s) hx hy = detectDrawnRaySectorPrize s hx hy"
proof (intro conjI)
  show "sectorData (resizes viewports s) = sectorData s"
    by (rule resizes_sectorData)
  show "moneyDisplay (resizes viewports s) = moneyDisplay s"
    by (rule resizes_moneyDisplay)
  show "\<exists>w h. resizes viewports s = s\<lparr>bgCanvasWidth := w, bgCanvasHeight := h\<rparr>"
    by (rule resizes_geometry)
  show "snd (drawBackground viewport (resizes viewports s)) = snd (drawBackground viewport' s)"
    by (simp only: drawBackground_layout resizes_sectorData)
  show "case onResults res s of Inl (e, s') \<Rightarrow> sectorData s' = sectorData s
                          | Inr s' \<Rightarrow> sectorData s' = sectorData s"
    using processFaces_sectorData by (simp add: onResults_def split: option.split)
  show "detectDrawnRaySectorPrize (resizes viewports s) hx hy = detectDrawnRaySectorPrize s hx hy"
    by (simp add: detectDrawnRaySectorPrize_def resizes_sectorData)
qed

text \<open>
  Claim C7 (heading derivation). With the nose tip \<open>n\<close> and the two ear tragions \<open>l\<close> and
  \<open>r\<close> present, the estimator returns
  \<open>(20 \<cdot> (n.x - (l.x + r.x)/2), 20 \<cdot> (n.y - (l.y + r.y)/2))\<close>. Every other landmark set
  whose three landmarks have the same \<open>x\<close> and \<open>y\<close> gives the same heading, whatever its
  \<open>z\<close> coordinates and its other landmarks are. The squared length of the heading is 400
  times the squared planar deviation of the nose from the ear midpoint: the vector is
  not scaled to unit length.
\<close>

theorem heading_derivation:
  assumes "landmarks NOSE_TIP = Some n" and "landmarks LEFT_EAR_TRAGION = Some l"
    and "landmarks RIGHT_EAR_TRAGION = Some r"
  shows "calculateFaceHeading landmarks =
           Inr \<lparr>heading_x = 20 * (lm_x n - (lm_x l + lm_x r) / 2),
                heading_y = 20 * (lm_y n - (lm_y l + lm_y r) / 2)\<rparr> \<and>
         (\<forall>landmarks' n' l' r'.
            landmarks' NOSE_TIP = Some n' \<and> landmarks' LEFT_EAR_TRAGION = Some l' \<and>
            landmarks' RIGHT_EAR_TRAGION = Some r' \<and>
            lm_x n' = lm_x n \<and> lm_y n' = lm_y n \<and> lm_x l' = lm_x l \<and> lm_y l' = lm_y l \<and>
            lm_x r' = lm_x r \<and> lm_y r' = lm_y r
            \<longrightarrow> calculateFaceHeading landmarks' = calculateFaceHeading landmarks) \<and>
         (\<forall>h. calculateFaceHeading landmarks = Inr h \<longrightarrow>
            (heading_x h)\<^sup>2 + (heading_y h)\<^sup>2 =
            400 * ((lm_x n - (lm_x l + lm_x r) / 2)\<^sup>2 + (lm_y n - (lm_y l + lm_y r) / 2)\<^sup>2))"
proof (intro conjI allI impI)
  show "calculateFaceHeading landmarks =
           Inr \<lparr>heading_x = 20 * (lm_x n - (lm_x l + lm_x r) / 2),
                heading_y = 20 * (lm_y n - (lm_y l + lm_y r) / 2)\<rparr>"
    by (rule calculateFaceHeading_present [OF assms])
next
  fix landmarks' :: "nat \<rightharpoonup> landmark" and n' l' r' :: landmark
  assume h: "landmarks' NOSE_TIP = Some n' \<and> landmarks' LEFT_EAR_TRAGION = Some l' \<and>
            landmarks' RIGHT_EAR_TRAGION = Some r' \<and>
            lm_x n' = lm_x n \<and> lm_y n' = lm_y n \<and> lm_x l' = lm_x l \<and> lm_y l' = lm_y l \<and>
            lm_x r' = lm_x r \<and> lm_y r' = lm_y r"
  then have "calculateFaceHeading landmarks' =
           Inr \<lparr>heading_x = 20 * (lm_x n' - (lm_x l' + lm_x r') / 2),
                heading_y = 20 * (lm_y n' - (lm_y l' + lm_y r') / 2)\<rparr>"
    by (intro calculateFaceHeading_present) simp_all
  with h show "calculateFaceHeading landmarks' = calculateFaceHeading landmarks"
    by (simp add: calculateFaceHeading_present [OF assms])
next
  fix h
  assume "calculateFaceHeading landmarks = Inr h"
  then have h: "h = \<lparr>heading_x = 20 * (lm_x n - (lm_x l + lm_x r) / 2),
                heading_y = 20 * (lm_y n - (lm_y l + lm_y r) / 2)\<rparr>"
    by (simp add: calculateFaceHeading_present [OF assms])
  show "(heading_x h)\<^sup>2 + (heading_y h)\<^sup>2 =
            400 * ((lm_x n - (lm_x l + lm_x r) / 2)\<^sup>2 + (lm_y n - (lm_y l + lm_y r) / 2)\<^sup>2)"
    unfolding h by (simp add: power2_eq_square algebra_simps)
qed

theorem heading_derivation_witness:
  "tiltedFace NOSE_TIP = Some \<lparr>lm_x = 0.6, lm_y = 0.45, lm_z = 0\<rparr> \<and>
   tiltedFace LEFT_EAR_TRAGION = Some \<lparr>lm_x = 0.4, lm_y = 0.5, lm_z = 0.1\<rparr> \<and>
   tiltedFace RIGHT_EAR_TRAGION = Some \<lparr>lm_x = 0.6, lm_y = 0.5, lm_z = 0.3\<rparr> \<and>
   calculateFaceHeading tiltedFace = Inr \<lparr>heading_x = 2, heading_y = - 1\<rparr>"
proof -
  have h1: "tiltedFace NOSE_TIP = Some \<lparr>lm_x = 0.6, lm_y = 0.45, lm_z = 0\<rparr>"
    and h2: "tiltedFace LEFT_EAR_TRAGION = Some \<lparr>lm_x = 0.4, lm_y = 0.5, lm_z = 0.1\<rparr>"
    and h3: "tiltedFace RIGHT_EAR_TRAGION = Some \<lparr>lm_x = 0.6, lm_y = 0.5, lm_z = 0.3\<rparr>"
    by (simp_all add: tiltedFace_def NOSE_TIP_def LEFT_EAR_TRAGION_def RIGHT_EAR_TRAGION_def)
  from heading_derivation [OF h1 h2 h3] h1 h2 h3 show ?thesis
    by simp
qed

text \<open>
  Claim C6 (missing landmark). When the nose tip or one of the two ear tragions is absent,
  \<^verbatim>\<open>calculateFaceHeading\<close> throws (a \<^verbatim>\<open>TypeError\<close>, from reading a property of
  \<^verbatim>\<open>undefined\<close>) and returns no vector. \<^verbatim>\<open>onResults\<close> does not catch it: for a frame whose
  first landmark set is the incomplete one it ends with the state it started with, so the
  resolver is not called and the number on display stays. When complete landmark sets
  precede the incomplete one in the frame, it ends with the state they have left.
\<close>

theorem missing_landmark:
  assumes "landmarks NOSE_TIP = None \<or> landmarks LEFT_EAR_TRAGION = None \<or> landmarks RIGHT_EAR_TRAGION = None"
  shows "calculateFaceHeading landmarks = Inl TypeError \<and>
         onResults \<lparr>multiFaceLandmarks = Some (landmarks # rest)\<rparr> s = Inl (TypeError, s) \<and>
         (\<forall>pre s'. processFaces pre s = Inr s' \<longrightarrow>
            onResults \<lparr>multiFaceLandmarks = Some (pre @ landmarks # rest)\<rparr> s = Inl (TypeError, s'))"
proof -
  have e: "calculateFaceHeading landmarks = Inl TypeError"
    by (rule calculateFaceHeading_missing [OF assms])
  then have p: "\<And>t. processFaces (landmarks # rest) t = Inl (TypeError, t)"
    by simp
  have "\<forall>pre s'. processFaces pre s = Inr s' \<longrightarrow>
            onResults \<lparr>multiFaceLandmarks = Some (pre @ landmarks # rest)\<rparr> s = Inl (TypeError, s')"
  proof (intro allI impI)
    fix pre s'
    assume "processFaces pre s = Inr s'"
    from processFaces_append [OF this, of "landmarks # rest"] p [of s']
    show "onResults \<lparr>multiFaceLandmarks = Some (pre @ landmarks # rest)\<rparr> s = Inl (TypeError, s')"
      by (simp add: onResults_def)
  qed
  with e p show ?thesis
    by (simp add: onResults_def)
qed

theorem missing_landmark_witness:
  "earlessFace RIGHT_EAR_TRAGION = None \<and>
   calculateFaceHeading earlessFace = Inl TypeError \<and>
   onResults \<lparr>multiFaceLandmarks = Some [earlessFace]\<rparr> (stateWith (Some exampleWheel) 100)
     = Inl (TypeError, stateWith (Some exampleWheel) 100) \<and>
   moneyDisplay (stateWith (Some exampleWheel) 100) = 100"
proof -
  have h: "earlessFace RIGHT_EAR_TRAGION = None"
    by (simp add: earlessFace_def NOSE_TIP_def LEFT_EAR_TRAGION_def RIGHT_EAR_TRAGION_def)
  then have "earlessFace NOSE_TIP = None \<or> earlessFace LEFT_EAR_TRAGION = None \<or> earlessFace RIGHT_EAR_TRAGION = None"
    by simp
  from missing_landmark [OF this, of "[]" "stateWith (Some exampleWheel) 100"] h show ?thesis
    by (simp add: stateWith_def)
qed




end
